theory Spec2Isabelle
  imports Complex_Main
begin

section \<open>The timers of the host\<close>

text \<open>
  The debounce utility is written against the host's \<^verbatim>\<open>setTimeout\<close> and
  \<^verbatim>\<open>clearTimeout\<close>. They are modelled by a clock, counting milliseconds, and a table
  of pending timers. An entry is \<open>(handle, due time, payload)\<close>, where the payload
  stands for the closure \<^verbatim>\<open>() => func(...args)\<close>: it records the arguments the
  wrapped function will be invoked with. Handles are positive integers, as in a
  browser, so a handle is always truthy.
\<close>

record 'a timers =
  now :: nat
  next_id :: nat
  pending :: "(nat \<times> nat \<times> 'a) list"

definition no_timers :: "'a timers" where
  "no_timers = \<lparr>now = 0, next_id = 1, pending = []\<rparr>"

text \<open>
  The delay the host applies. The code hands \<^verbatim>\<open>wait\<close> to the host as it is, and it is
  any number: numbers are modelled by the reals (\<^verbatim>\<open>NaN\<close> and the infinities are left
  out). From 1 to \<open>2^31 - 1\<close> the host honours the delay, truncated to whole
  milliseconds. Outside that range every host puts a minimal delay in its place (a
  browser 0 for a negative delay and the delay modulo \<open>2^32\<close> for a large one,
  Node.js 1 ms): the timer is then due at once, which covers these hosts because a due
  timer runs when the host gets to it, not before.
\<close>

definition host_delay :: "real \<Rightarrow> nat" where
  "host_delay delay = (if 1 \<le> delay \<and> delay \<le> 2147483647 then nat \<lfloor>delay\<rfloor> else 0)"

definition setTimeout :: "'a \<Rightarrow> real \<Rightarrow> 'a timers \<Rightarrow> nat \<times> 'a timers" where
  "setTimeout args delay tm =
     (next_id tm,
      tm\<lparr>next_id := Suc (next_id tm),
         pending := pending tm @ [(next_id tm, now tm + host_delay delay, args)]\<rparr>)"

text \<open>Clearing a handle that has run already, or was never issued, does nothing.\<close>

definition clearTimeout :: "nat \<Rightarrow> 'a timers \<Rightarrow> 'a timers" where
  "clearTimeout h tm = tm\<lparr>pending := filter (\<lambda>(i, u, a). i \<noteq> h) (pending tm)\<rparr>"

text \<open>
  Time passes: the clock advances and nothing else happens. A timer that has become
  due stays in the table until the host runs it, or the code clears it.
\<close>

definition elapse :: "nat \<Rightarrow> 'a timers \<Rightarrow> 'a timers" where
  "elapse d tm = tm\<lparr>now := now tm + d\<rparr>"

text \<open>
  The host runs one timer: \<open>run_timer h\<close> takes the timer with handle \<open>h\<close> out of the
  table and yields its payload, provided it is pending and due. The host never runs a
  timer before it is due; how long after, is up to the host.
\<close>

definition run_timer :: "nat \<Rightarrow> 'a timers \<Rightarrow> 'a option \<times> 'a timers" where
  "run_timer h tm =
     (case find (\<lambda>(i, u, a). i = h \<and> u \<le> now tm) (pending tm) of
        None \<Rightarrow> (None, tm)
      | Some (i, u, a) \<Rightarrow>
          (Some a, tm\<lparr>pending := filter (\<lambda>(j, v, b). j \<noteq> h) (pending tm)\<rparr>))"

text \<open>
  The host gets to its timers: \<open>run_due\<close> runs every timer that is due, in the order of
  the due times (timers due at the same instant in the order they were set), and
  yields their payloads.
\<close>

definition run_due :: "'a timers \<Rightarrow> 'a list \<times> 'a timers" where
  "run_due tm =
     (map (\<lambda>(i, u, a). a)
        (sort_key (\<lambda>(i, u, a). u) (filter (\<lambda>(i, u, a). u \<le> now tm) (pending tm))),
      tm\<lparr>pending := filter (\<lambda>(i, u, a). \<not> u \<le> now tm) (pending tm)\<rparr>)"

section \<open>The debounced invoker\<close>

text \<open>
  \<^verbatim>\<open>debounce(func, wait)\<close> returns a closure over the variable \<^verbatim>\<open>timeout\<close>, which
  starts undefined (\<open>None\<close>) and holds the handle of the last timer set. The closure is
  modelled by its state, the timer table together with \<^verbatim>\<open>timeout\<close>, and by
  \<open>debounced\<close>, one call of the closure with the arguments \<open>args\<close>: it clears the timer
  whose handle it holds, whether that timer is due or not, and sets a new one.
\<close>

type_synonym 'a debouncer = "'a timers \<times> nat option"

definition debounce :: "'a debouncer" where
  "debounce = (no_timers, None)"

definition debounced :: "real \<Rightarrow> 'a \<Rightarrow> 'a debouncer \<Rightarrow> 'a debouncer" where
  "debounced wait args st =
     (case st of (tm, timeout) \<Rightarrow>
        let tm1 = (case timeout of Some h \<Rightarrow> clearTimeout h tm | None \<Rightarrow> tm);
            (h', tm2) = setTimeout args wait tm1
        in (tm2, Some h'))"

text \<open>
  A session with the debounced function. Each call is given as \<open>(gap, host, args)\<close>: the
  time that passed since the previous call (for the first one, since the creation),
  whether the host got to its timers in that time, after they became due and before
  the call is made, and the arguments. When \<open>host\<close> is false a timer that is due has not
  run yet when the call is made (the call comes at the very instant the timer is due,
  or the thread was busy); the call then clears it. After the last call the session
  stays quiet until the last timer is due, and the host runs it. The result lists the
  arguments of the invocations of the wrapped function, in order.
\<close>

fun calls :: "real \<Rightarrow> (nat \<times> bool \<times> 'a) list \<Rightarrow> 'a debouncer \<Rightarrow> 'a list" where
  "calls wait [] st = fst (run_due (elapse (host_delay wait) (fst st)))"
| "calls wait ((gap, host, args) # cs) st =
     (let tm1 = elapse gap (fst st);
          (fired, tm2) = (if host then run_due tm1 else ([], tm1))
      in fired @ calls wait cs (debounced wait args (tm2, snd st)))"

section \<open>Values exchanged with the places service\<close>

text \<open>
  Request objects are finite maps from property names to values. The spread
  \<^verbatim>\<open>{ input, ...predictionOptions }\<close> is the map with \<^verbatim>\<open>input\<close> overridden by the
  properties of \<^verbatim>\<open>predictionOptions\<close>, that is \<open>[''input'' \<mapsto> v] ++ predictionOptions\<close>.
\<close>

datatype jsval =
    JUndefined
  | JNull
  | JBool bool
  | JNum int
  | JStr string
  | JArr "jsval list"
  | JObj "(string \<times> jsval) list"

type_synonym jsobj = "string \<rightharpoonup> jsval"

record prediction =
  description :: string
  place_id :: string

text \<open>A place result is an object of the service; the code only passes it on.\<close>

type_synonym place_result = "(string \<times> jsval) list"

text \<open>
  Modelled from the spec: the status enumeration of the service
  (\<^verbatim>\<open>google.maps.places.PlacesServiceStatus\<close>) is declared outside the repository. The
  code compares against \<^verbatim>\<open>OK\<close> only; the spec names "zero results" as one of the
  statuses that are not a success.
\<close>

datatype PlacesServiceStatus =
    INVALID_REQUEST
  | NOT_FOUND
  | OK
  | OVER_QUERY_LIMIT
  | REQUEST_DENIED
  | UNKNOWN_ERROR
  | ZERO_RESULTS

text \<open>
  The errors that occur: an \<^verbatim>\<open>Error\<close> the code creates, with its message, and the
  \<^verbatim>\<open>TypeError\<close> the host raises when the code constructs a service object of
  \<^verbatim>\<open>google.maps.places\<close> while that namespace is not defined. (Were the global
  \<^verbatim>\<open>google\<close> not declared at all, the host would raise a \<^verbatim>\<open>ReferenceError\<close> at the
  same place; once a maps script has loaded it is declared, and the model does not
  tell the two apart.)
\<close>

datatype error = Error string | TypeError

text \<open>
  A promise is pending, fulfilled with a value, or rejected with an error. It settles
  once: resolving or rejecting a settled promise has no effect.
\<close>

datatype 'a promise = Pending | Fulfilled 'a | Rejected error

definition settle :: "'a promise \<Rightarrow> 'a promise \<Rightarrow> 'a promise" where
  "settle outcome p = (case p of Pending \<Rightarrow> outcome | Fulfilled v \<Rightarrow> p | Rejected e \<Rightarrow> p)"

text \<open>What \<^verbatim>\<open>fetchPlaceDetails\<close> can resolve with: nothing at all, or a place.\<close>

datatype detail_value = Undefined | Place place_result

section \<open>The coordinator and the process-wide state\<close>

record script =
  script_src :: string
  script_async :: bool
  script_defer :: bool
  script_promise :: "unit promise"

record AutocompleteOptions =
  opt_debounceTime :: "real option"
  opt_predictionOptions :: "jsobj option"
  opt_libraries :: "string list option"
  opt_language :: "string option"

text \<open>
  \<^verbatim>\<open>a || b\<close> yields \<open>b\<close> when \<open>a\<close> is falsy. An absent option is \<^verbatim>\<open>undefined\<close>; among the
  numbers \<open>0\<close> is falsy (and \<^verbatim>\<open>NaN\<close>, which is not modelled), among the strings the
  empty one; objects and arrays are always truthy.
\<close>

definition or_number :: "real option \<Rightarrow> real \<Rightarrow> real" where
  "or_number a b = (case a of None \<Rightarrow> b | Some n \<Rightarrow> if n = 0 then b else n)"

definition or_string :: "string option \<Rightarrow> string \<Rightarrow> string" where
  "or_string a b = (case a of None \<Rightarrow> b | Some s \<Rightarrow> if s = [] then b else s)"

definition or_object :: "'a option \<Rightarrow> 'a \<Rightarrow> 'a" where
  "or_object a b = (case a of None \<Rightarrow> b | Some x \<Rightarrow> x)"

text \<open>
  The \<^verbatim>\<open>onMounted\<close> hook of an instance has not run yet, is suspended at its
  \<^verbatim>\<open>await\<close> on the promise of the script with the given index in the document head,
  or has finished.
\<close>

datatype init_phase = Unmounted | Awaiting nat | Settled

text \<open>
  One instance of the composable: its configuration, its reactive state, the
  \<^verbatim>\<open>timeout\<close> variable of its debounce closure, the phase of its mount hook, and its
  traffic with the service: the prediction requests it issued, how many of them are
  still to be answered, the place identifiers it looked up, and the promises its
  \<^verbatim>\<open>fetchPlaceDetails\<close> calls returned.
\<close>

record coordinator =
  apiKey :: string
  debounceTime :: real
  predictionOptions :: jsobj
  libraries :: "string list"
  language :: string
  predictions :: "prediction list"
  loading :: bool
  isGoogleMapsApiLoaded :: bool
  addressInfo :: "place_result option"
  timeout :: "nat option"
  init :: init_phase
  requests :: "jsobj list"
  unanswered :: nat
  lookups :: "string list"
  details :: "detail_value promise list"

text \<open>
  The process: the module-level flag \<^verbatim>\<open>googleMapsApiLoaded\<close>, whether the global
  \<^verbatim>\<open>google.maps.places\<close> is defined, the scripts appended to the document head, the
  error console, the timer queue (a payload is the index of the instance and the
  input of the search), and the instances.
\<close>

record world =
  googleMapsApiLoaded :: bool
  google_places :: bool
  document_head :: "script list"
  console :: "(string \<times> error) list"
  timer_queue :: "(nat \<times> string) timers"
  insts :: "coordinator list"

definition initial_world :: "world" where
  "initial_world =
     \<lparr>googleMapsApiLoaded = False, google_places = False, document_head = [], console = [],
      timer_queue = no_timers, insts = []\<rparr>"

definition modify :: "nat \<Rightarrow> ('a \<Rightarrow> 'a) \<Rightarrow> 'a list \<Rightarrow> 'a list" where
  "modify k f xs = (if k < length xs then xs[k := f (xs ! k)] else xs)"

definition on_inst :: "nat \<Rightarrow> (coordinator \<Rightarrow> coordinator) \<Rightarrow> world \<Rightarrow> world" where
  "on_inst i f w = w\<lparr>insts := modify i f (insts w)\<rparr>"

subsection \<open>The script loader\<close>

fun join :: "string \<Rightarrow> string list \<Rightarrow> string" where
  "join sep [] = []"
| "join sep [x] = x"
| "join sep (x # y # ys) = x @ sep @ join sep (y # ys)"

definition maps_url :: "string \<Rightarrow> string list \<Rightarrow> string \<Rightarrow> string" where
  "maps_url key libs lang =
     ''https://maps.googleapis.com/maps/api/js?key='' @ key @
     ''&libraries='' @ join '','' libs @ ''&language='' @ lang"

text \<open>
  The promise \<^verbatim>\<open>loadGoogleMapsApi\<close> returns is either resolved at once, or it is the
  promise of the script appended at the given index.
\<close>

datatype load = Resolved | OnScript nat

definition loadGoogleMapsApi :: "string \<Rightarrow> string list \<Rightarrow> string \<Rightarrow> world \<Rightarrow> load \<times> world" where
  "loadGoogleMapsApi key libs lang w =
     (if googleMapsApiLoaded w then (Resolved, w)
      else (OnScript (length (document_head w)),
            w\<lparr>document_head := document_head w @
                 [\<lparr>script_src = maps_url key libs lang, script_async = True,
                   script_defer = True, script_promise = Pending\<rparr>]\<rparr>))"

definition script_onload :: "nat \<Rightarrow> world \<Rightarrow> world" where
  "script_onload k w =
     w\<lparr>googleMapsApiLoaded := True,
       document_head :=
         modify k (\<lambda>s. s\<lparr>script_promise := settle (Fulfilled ()) (script_promise s)\<rparr>)
           (document_head w)\<rparr>"

definition script_onerror :: "nat \<Rightarrow> world \<Rightarrow> world" where
  "script_onerror k w =
     w\<lparr>document_head :=
         modify k
           (\<lambda>s. s\<lparr>script_promise :=
                    settle (Rejected (Error ''Failed to load Google Maps API''))
                      (script_promise s)\<rparr>)
           (document_head w)\<rparr>"

subsection \<open>The composable\<close>

text \<open>The default value \<^verbatim>\<open>{}\<close> of the parameter \<^verbatim>\<open>options\<close>: every option is absent.\<close>

definition default_options :: AutocompleteOptions where
  "default_options =
     \<lparr>opt_debounceTime = None, opt_predictionOptions = None, opt_libraries = None,
      opt_language = None\<rparr>"

definition useGooglePlacesAutocomplete :: "string \<Rightarrow> AutocompleteOptions \<Rightarrow> coordinator" where
  "useGooglePlacesAutocomplete key options =
     \<lparr>apiKey = key,
      debounceTime = or_number (opt_debounceTime options) 300,
      predictionOptions = or_object (opt_predictionOptions options) Map.empty,
      libraries = or_object (opt_libraries options) [''places''],
      language = or_string (opt_language options) ''en'',
      predictions = [], loading = False, isGoogleMapsApiLoaded = False, addressInfo = None,
      timeout = None, init = Unmounted, requests = [], unanswered = 0, lookups = [],
      details = []\<rparr>"

text \<open>
  The function handed to \<^verbatim>\<open>debounce\<close>: what runs when the timer of a search runs.
  It is an async function, so it returns a promise, and an exception in it rejects
  that promise. Past its guard it sets \<open>loading\<close> and constructs the service object,
  \<^verbatim>\<open>new google.maps.places.AutocompleteService()\<close>. The argument \<open>places\<close> tells
  whether \<^verbatim>\<open>google.maps.places\<close> is defined at that moment: if it is not, the
  construction raises a \<^verbatim>\<open>TypeError\<close> and the function ends there, with \<open>loading\<close> set
  and no request made. Otherwise \<^verbatim>\<open>getPlacePredictions\<close> is called; the model records
  the call: the request is appended to \<open>requests\<close> and counted in \<open>unanswered\<close> until the
  service calls back.
\<close>

definition prediction_request :: "string \<Rightarrow> jsobj \<Rightarrow> jsobj" where
  "prediction_request input options = [''input'' \<mapsto> JStr input] ++ options"

definition fetchPredictions_body ::
    "bool \<Rightarrow> string \<Rightarrow> coordinator \<Rightarrow> unit promise \<times> coordinator" where
  "fetchPredictions_body places input c =
     (if \<not> isGoogleMapsApiLoaded c \<or> input = [] then (Fulfilled (), c)
      else if \<not> places then (Rejected TypeError, c\<lparr>loading := True\<rparr>)
      else (Fulfilled (),
            c\<lparr>loading := True,
              requests := requests c @ [prediction_request input (predictionOptions c)],
              unanswered := Suc (unanswered c)\<rparr>))"

text \<open>The callback given to \<^verbatim>\<open>getPlacePredictions\<close>; \<open>None\<close> is \<^verbatim>\<open>null\<close>.\<close>

definition getPlacePredictions_callback ::
    "prediction list option \<Rightarrow> coordinator \<Rightarrow> coordinator" where
  "getPlacePredictions_callback results c =
     c\<lparr>predictions := (case results of None \<Rightarrow> [] | Some rs \<Rightarrow> rs),
       loading := False,
       unanswered := unanswered c - 1\<rparr>"

text \<open>
  \<^verbatim>\<open>fetchPlaceDetails\<close> is an async function: it returns a promise, and the result
  here is the index of that promise among the promises of the instance. When the API
  flag is not set the function returns at once, and its promise is fulfilled with
  \<^verbatim>\<open>undefined\<close>. Otherwise it constructs the service object,
  \<^verbatim>\<open>new google.maps.places.PlacesService(...)\<close>; when \<^verbatim>\<open>google.maps.places\<close> is not
  defined (\<open>places\<close> is false) this raises a \<^verbatim>\<open>TypeError\<close>, so the promise is rejected
  with it and no lookup is made. Otherwise the lookup is made and the promise is
  pending until the service calls back.
\<close>

definition fetchPlaceDetails :: "bool \<Rightarrow> string \<Rightarrow> coordinator \<Rightarrow> nat \<times> coordinator" where
  "fetchPlaceDetails places placeId c =
     (if \<not> isGoogleMapsApiLoaded c
      then (length (details c), c\<lparr>details := details c @ [Fulfilled Undefined]\<rparr>)
      else if \<not> places
      then (length (details c), c\<lparr>details := details c @ [Rejected TypeError]\<rparr>)
      else (length (details c),
            c\<lparr>lookups := lookups c @ [placeId], details := details c @ [Pending]\<rparr>))"

text \<open>The callback given to \<^verbatim>\<open>getDetails\<close> by the call that returned promise \<open>k\<close>.\<close>

definition getDetails_callback ::
    "nat \<Rightarrow> place_result option \<Rightarrow> PlacesServiceStatus \<Rightarrow> coordinator \<Rightarrow> coordinator" where
  "getDetails_callback k place status c =
     c\<lparr>details :=
         modify k
           (settle (if status = OK \<and> place \<noteq> None then Fulfilled (Place (the place))
                    else Rejected (Error ''Place details not found'')))
           (details c)\<rparr>"

definition resetPredictions :: "coordinator \<Rightarrow> coordinator" where
  "resetPredictions c = c\<lparr>predictions := []\<rparr>"

text \<open>
  The debounced \<^verbatim>\<open>fetchPredictions\<close> an instance exports: a call of the debounce
  closure of instance \<open>i\<close> on the timer queue of the process.
\<close>

definition fetchPredictions :: "nat \<Rightarrow> string \<Rightarrow> world \<Rightarrow> world" where
  "fetchPredictions i input w =
     (if i < length (insts w) then
        let c = insts w ! i;
            (tm, h) = debounced (debounceTime c) (i, input) (timer_queue w, timeout c)
        in w\<lparr>timer_queue := tm, insts := (insts w)[i := c\<lparr>timeout := h\<rparr>]\<rparr>
      else w)"

text \<open>
  The host runs the timer of a search of instance \<open>i\<close> at time \<open>t\<close>: the search body
  runs on that instance. The promise it returns is dropped by the timer's closure.
\<close>

definition fire :: "nat \<times> nat \<times> string \<Rightarrow> world \<Rightarrow> world" where
  "fire e w =
     (case e of (t, i, input) \<Rightarrow>
        on_inst i (\<lambda>c. snd (fetchPredictions_body (google_places w) input c)) w)"

definition time_passes :: "nat \<Rightarrow> world \<Rightarrow> world" where
  "time_passes d w = w\<lparr>timer_queue := elapse d (timer_queue w)\<rparr>"

definition timer_fires :: "nat \<Rightarrow> world \<Rightarrow> world" where
  "timer_fires h w =
     (case run_timer h (timer_queue w) of
        (None, tm) \<Rightarrow> w
      | (Some (i, input), tm) \<Rightarrow> fire (now tm, i, input) (w\<lparr>timer_queue := tm\<rparr>))"

text \<open>
  The mount hook of instance \<open>i\<close>, up to its \<^verbatim>\<open>await\<close>. When the loader's promise is
  resolved already, the continuation runs as a microtask before anything else can
  happen and is part of the same step.
\<close>

definition api_ready :: "coordinator \<Rightarrow> coordinator" where
  "api_ready c = c\<lparr>isGoogleMapsApiLoaded := True, init := Settled\<rparr>"

definition onMounted :: "nat \<Rightarrow> world \<Rightarrow> world" where
  "onMounted i w =
     (let c = insts w ! i in
      if google_places w then on_inst i api_ready w
      else (case loadGoogleMapsApi (apiKey c) (libraries c) (language c) w of
              (Resolved, w') \<Rightarrow> on_inst i api_ready w'
            | (OnScript k, w') \<Rightarrow> on_inst i (\<lambda>c. c\<lparr>init := Awaiting k\<rparr>) w'))"

text \<open>
  The rest of the hook, run when the promise of script \<open>k\<close> settles: the statement
  after the \<^verbatim>\<open>await\<close> on success, the \<^verbatim>\<open>catch\<close> block on failure.
\<close>

definition onMounted_resume :: "nat \<Rightarrow> bool \<Rightarrow> coordinator \<Rightarrow> coordinator" where
  "onMounted_resume k ok c =
     (if init c = Awaiting k then (if ok then api_ready c else c\<lparr>init := Settled\<rparr>) else c)"

definition load_error_log :: "nat \<Rightarrow> coordinator list \<Rightarrow> (string \<times> error) list" where
  "load_error_log k cs =
     map (\<lambda>c. (''Error loading Google Maps API:'', Error ''Failed to load Google Maps API''))
       (filter (\<lambda>c. init c = Awaiting k) cs)"

subsection \<open>The process as a state machine\<close>

text \<open>
  Everything that can happen to the process: an instance is created, its mount hook
  runs (once), a loading script fires its load or its error event, some script
  defines \<^verbatim>\<open>google.maps.places\<close>, a search is requested, time passes, the host runs
  a timer that is due, the service answers a prediction request that is still open,
  details are requested, the service answers a lookup whose promise is still pending,
  the predictions are reset. An event that cannot happen in the current state leaves
  it as it is. Whether the places namespace is defined is up to the environment: the
  load of a script sets the flags of the code and nothing else.
\<close>

datatype event =
    Create string AutocompleteOptions
  | Mounted nat
  | ScriptLoad nat
  | ScriptError nat
  | GoogleDefined
  | Search nat string
  | Elapse nat
  | TimerFires nat
  | PredictionsReply nat "prediction list option"
  | Details nat string
  | DetailsReply nat nat "place_result option" PlacesServiceStatus
  | Reset nat

definition script_loading :: "nat \<Rightarrow> world \<Rightarrow> bool" where
  "script_loading k w =
     (k < length (document_head w) \<and> script_promise (document_head w ! k) = Pending)"

fun step :: "event \<Rightarrow> world \<Rightarrow> world" where
  "step (Create key options) w = w\<lparr>insts := insts w @ [useGooglePlacesAutocomplete key options]\<rparr>"
| "step (Mounted i) w =
     (if i < length (insts w) \<and> init (insts w ! i) = Unmounted then onMounted i w else w)"
| "step (ScriptLoad k) w =
     (if script_loading k w
      then (script_onload k w)\<lparr>insts := map (onMounted_resume k True) (insts w)\<rparr>
      else w)"
| "step (ScriptError k) w =
     (if script_loading k w
      then (script_onerror k w)
             \<lparr>console := console w @ load_error_log k (insts w),
              insts := map (onMounted_resume k False) (insts w)\<rparr>
      else w)"
| "step GoogleDefined w = w\<lparr>google_places := True\<rparr>"
| "step (Search i input) w = fetchPredictions i input w"
| "step (Elapse d) w = time_passes d w"
| "step (TimerFires h) w = timer_fires h w"
| "step (PredictionsReply i results) w =
     (if i < length (insts w) \<and> 0 < unanswered (insts w ! i)
      then on_inst i (getPlacePredictions_callback results) w else w)"
| "step (Details i placeId) w =
     on_inst i (\<lambda>c. snd (fetchPlaceDetails (google_places w) placeId c)) w"
| "step (DetailsReply i k place status) w =
     (if i < length (insts w) \<and> k < length (details (insts w ! i))
         \<and> details (insts w ! i) ! k = Pending
      then on_inst i (getDetails_callback k place status) w else w)"
| "step (Reset i) w = on_inst i resetPredictions w"

definition run :: "event list \<Rightarrow> world \<Rightarrow> world" where
  "run evs w = fold step evs w"

section \<open>Definitions used in the statements and proofs\<close>

subsection \<open>The debounce law\<close>

text \<open>
  The law of the debounced invoker, on a session: a call reaches the wrapped function
  when it is the last one, or when the next call comes at least \<open>wait\<close> milliseconds
  later and the host has run the timers that were due before that call is made.
\<close>

fun survivors :: "int \<Rightarrow> (nat \<times> bool \<times> 'a) list \<Rightarrow> 'a list" where
  "survivors wait [] = []"
| "survivors wait [(g, r, a)] = [a]"
| "survivors wait ((g, r, a) # (g', r', b) # cs) =
     (if wait \<le> int g' \<and> r' then [a] else []) @ survivors wait ((g', r', b) # cs)"

text \<open>
  What a session yields from a state with at most one pending timer, given as
  \<open>(due time, args)\<close>, at time \<open>t\<close>; \<open>w\<close> is the delay the host applies.
\<close>

fun expect :: "nat \<Rightarrow> nat \<Rightarrow> (nat \<times> 'a) option \<Rightarrow> (nat \<times> bool \<times> 'a) list \<Rightarrow> 'a list" where
  "expect w t p [] =
     (case p of None \<Rightarrow> [] | Some (u, a) \<Rightarrow> if u \<le> t + w then [a] else [])"
| "expect w t p ((g, r, a) # cs) =
     (case p of None \<Rightarrow> [] | Some (u, b) \<Rightarrow> if r \<and> u \<le> t + g then [b] else [])
     @ expect w (t + g) (Some (t + g + w, a)) cs"

text \<open>
  The states a debounce closure can be in: no timer is pending, or exactly one is,
  and \<^verbatim>\<open>timeout\<close> holds its handle.
\<close>

definition armed :: "'a debouncer \<Rightarrow> (nat \<times> 'a) option \<Rightarrow> bool" where
  "armed st p =
     (case p of
        None \<Rightarrow> pending (fst st) = []
      | Some (u, a) \<Rightarrow> (\<exists>h. pending (fst st) = [(h, u, a)] \<and> snd st = Some h))"

subsection \<open>The moves of one instance\<close>

text \<open>
  Whatever happens to the process, an instance changes only by the moves below;
  \<open>step_moves\<close> proves it. Invariants of an instance are proved over these moves.
\<close>

inductive inst_move :: "coordinator \<Rightarrow> coordinator \<Rightarrow> bool" where
  mount_ready: "init c = Unmounted \<Longrightarrow> inst_move c (api_ready c)"
| mount_await: "init c = Unmounted \<Longrightarrow> inst_move c (c\<lparr>init := Awaiting k\<rparr>)"
| load_ok: "init c = Awaiting k \<Longrightarrow> inst_move c (api_ready c)"
| load_failed: "init c = Awaiting k \<Longrightarrow> inst_move c (c\<lparr>init := Settled\<rparr>)"
| timer_set: "inst_move c (c\<lparr>timeout := h\<rparr>)"
| timer_ran: "inst_move c (snd (fetchPredictions_body places input c))"
| predictions_reply:
    "0 < unanswered c \<Longrightarrow> inst_move c (getPlacePredictions_callback results c)"
| details_asked: "inst_move c (snd (fetchPlaceDetails places placeId c))"
| details_reply:
    "k < length (details c) \<Longrightarrow> details c ! k = Pending \<Longrightarrow>
       inst_move c (getDetails_callback k place status c)"
| reset: "inst_move c (resetPredictions c)"

text \<open>
  An instance whose API flag was never set has issued nothing and shows nothing;
  every promise it handed out for place details is fulfilled with \<^verbatim>\<open>undefined\<close>.
\<close>

definition never_loaded :: "coordinator \<Rightarrow> bool" where
  "never_loaded c =
     (\<not> isGoogleMapsApiLoaded c \<and> predictions c = [] \<and> \<not> loading c \<and> unanswered c = 0 \<and>
      requests c = [] \<and> lookups c = [] \<and>
      list_all (\<lambda>p. p = Fulfilled Undefined) (details c))"

definition init_inv :: "coordinator \<Rightarrow> bool" where
  "init_inv c =
     ((init c = Settled \<or> \<not> isGoogleMapsApiLoaded c) \<and>
      (isGoogleMapsApiLoaded c \<or> never_loaded c))"

section \<open>The debounced invoker: proofs\<close>

lemma host_delay_honoured:
  "1 \<le> wait \<Longrightarrow> wait \<le> 2147483647 \<Longrightarrow> int (host_delay wait) = \<lfloor>wait\<rfloor>"
  by (simp add: host_delay_def)

lemma run_due_idle: "pending tm = [] \<Longrightarrow> run_due tm = ([], tm)"
  by (simp add: run_due_def)

lemma run_due_single:
  "pending tm = [(h, u, a)] \<Longrightarrow>
     run_due tm = (if u \<le> now tm then ([a], tm\<lparr>pending := []\<rparr>) else ([], tm))"
  by (simp add: run_due_def)

text \<open>A call leaves exactly one timer pending: its own.\<close>

lemma debounced_armed:
  "pending tm = [] \<or> (\<exists>u b. pending tm = [(h, u, b)] \<and> tmo = Some h) \<Longrightarrow>
     armed (debounced wait a (tm, tmo)) (Some (now tm + host_delay wait, a))"
  by (auto simp: armed_def debounced_def setTimeout_def clearTimeout_def split: option.splits)

lemma debounced_now: "now (fst (debounced wait a (tm, tmo))) = now tm"
  by (auto simp: debounced_def setTimeout_def clearTimeout_def split: option.splits)

lemma debounced_pending:
  "pending (fst (debounced wait a (tm, tmo))) =
     (case tmo of None \<Rightarrow> pending tm
      | Some h \<Rightarrow> filter (\<lambda>(i, u, b). i \<noteq> h) (pending tm)) @
     [(next_id tm, now tm + host_delay wait, a)]"
  by (simp add: debounced_def setTimeout_def clearTimeout_def split: option.splits)

lemma calls_expect:
  "armed st p \<Longrightarrow> calls wait cs st = expect (host_delay wait) (now (fst st)) p cs"
proof (induction cs arbitrary: st p)
  case Nil
  then show ?case
    by (cases p) (auto simp: armed_def elapse_def run_due_idle run_due_single)
next
  case (Cons c cs)
  obtain g r a where c: "c = (g, r, a)" by (cases c)
  obtain tm tmo where st: "st = (tm, tmo)" by (cases st)
  let ?e = "if r then run_due (elapse g tm) else ([], elapse g tm)"
  have fired:
    "fst ?e = (case p of None \<Rightarrow> [] | Some (u, b) \<Rightarrow> if r \<and> u \<le> now tm + g then [b] else [])"
    using Cons.prems st
    by (cases p) (auto simp: armed_def elapse_def run_due_idle run_due_single)
  have "pending (snd ?e) = [] \<or> (\<exists>h u b. pending (snd ?e) = [(h, u, b)] \<and> tmo = Some h)"
    using Cons.prems st
    by (cases p) (auto simp: armed_def elapse_def run_due_idle run_due_single split: if_splits)
  then have "armed (debounced wait a (snd ?e, tmo)) (Some (now (snd ?e) + host_delay wait, a))"
    using debounced_armed[of "snd ?e" _ tmo wait a] by blast
  moreover have "now (snd ?e) = now tm + g"
    using Cons.prems st
    by (cases p) (auto simp: armed_def elapse_def run_due_idle run_due_single)
  ultimately have "calls wait cs (debounced wait a (snd ?e, tmo)) =
          expect (host_delay wait) (now tm + g) (Some (now tm + g + host_delay wait, a)) cs"
    using Cons.IH[of "debounced wait a (snd ?e, tmo)"] by (simp add: debounced_now)
  with fired show ?case
    by (simp add: c st split_beta Let_def)
qed

lemma expect_survivors:
  "int w = wait \<Longrightarrow>
     expect w t (Some (t + w, a)) cs = survivors wait ((g0, r0, a) # cs)"
proof (induction cs arbitrary: t a g0 r0)
  case Nil
  show ?case by simp
next
  case (Cons c cs)
  obtain g r b where c: "c = (g, r, b)" by (cases c)
  from Cons.IH[OF Cons.prems, of "t + g" b g r] Cons.prems show ?case
    by (auto simp: c)
qed

lemma survivors_fast:
  "\<forall>(g, r, b) \<in> set cs. int g < wait \<Longrightarrow>
     survivors wait (c # cs) = [snd (snd (last (c # cs)))]"
proof (induction cs arbitrary: c)
  case Nil
  show ?case by (cases c) simp
next
  case (Cons d cs)
  obtain g r a where c: "c = (g, r, a)" by (cases c)
  obtain g' r' b where d: "d = (g', r', b)" by (cases d)
  from Cons.prems d have g': "int g' < wait" and rest: "\<forall>(g, r, b) \<in> set cs. int g < wait"
    by auto
  from Cons.IH[OF rest, of d] g' show ?case by (simp add: c d)
qed

lemma survivors_slow:
  "\<forall>(g, r, b) \<in> set cs. wait \<le> int g \<and> r \<Longrightarrow>
     survivors wait (c # cs) = map (\<lambda>(g, r, a). a) (c # cs)"
proof (induction cs arbitrary: c)
  case Nil
  show ?case by (cases c) simp
next
  case (Cons d cs)
  obtain g r a where c: "c = (g, r, a)" by (cases c)
  obtain g' r' b where d: "d = (g', r', b)" by (cases d)
  from Cons.prems d have g': "wait \<le> int g' \<and> r'"
    and rest: "\<forall>(g, r, b) \<in> set cs. wait \<le> int g \<and> r"
    by auto
  from Cons.IH[OF rest, of d] g' show ?case by (simp add: c d)
qed

lemma armed_debounce: "armed debounce None"
  by (simp add: armed_def debounce_def no_timers_def)

lemma calls_from_creation:
  "calls wait ((g, r, a) # cs) debounce =
     expect (host_delay wait) g (Some (g + host_delay wait, a)) cs"
  using calls_expect[OF armed_debounce, of wait "(g, r, a) # cs"]
  by (simp add: debounce_def no_timers_def)

text \<open>
  C1, as amended. Let the wait be one the host honours, from 1 to \<open>2^31 - 1\<close>, and
  count it in whole milliseconds, as the host does (\<open>\<lfloor>wait\<rfloor>\<close>). For every session \<open>cs\<close>
  of calls to the debounced function: (1) if every call comes strictly sooner than the
  wait after the previous one, the wrapped function is invoked exactly once, with the
  arguments of the final call, whatever the host does; (2) if every call comes at
  least the wait after the previous one and the host has run the timer of the previous
  call by then, every call reaches the wrapped function, in order; (3) in general a
  call reaches the wrapped function exactly when it is the last, or the next call
  comes at least the wait later and the host has run the timer by then: a call made
  while the timer of the previous one has not run, due or not, supersedes it; and (4)
  a call clears the timer the closure holds and sets a fresh one for its own
  arguments, due the wait later.
\<close>

theorem debounce_coalesces_and_separates:
  "1 \<le> wait \<Longrightarrow> wait \<le> 2147483647 \<Longrightarrow> cs \<noteq> [] \<Longrightarrow>
     ((\<forall>(gap, host, args) \<in> set (tl cs). int gap < \<lfloor>wait\<rfloor>) \<longrightarrow>
        calls wait cs debounce = [snd (snd (last cs))]) \<and>
     ((\<forall>(gap, host, args) \<in> set (tl cs). \<lfloor>wait\<rfloor> \<le> int gap \<and> host) \<longrightarrow>
        calls wait cs debounce = map (\<lambda>(gap, host, args). args) cs) \<and>
     calls wait cs debounce = survivors \<lfloor>wait\<rfloor> cs \<and>
     pending (fst (debounced wait args (tm, Some h))) =
       filter (\<lambda>(i, u, b). i \<noteq> h) (pending tm) @
       [(next_id tm, now tm + nat \<lfloor>wait\<rfloor>, args)]"
proof -
  assume range: "1 \<le> wait" "wait \<le> 2147483647" and "cs \<noteq> []"
  then obtain g r a cs' where cs: "cs = (g, r, a) # cs'"
    by (cases cs) auto
  have w: "int (host_delay wait) = \<lfloor>wait\<rfloor>"
    using range by (rule host_delay_honoured)
  have "calls wait cs debounce =
      expect (host_delay wait) g (Some (g + host_delay wait, a)) cs'"
    unfolding cs by (rule calls_from_creation)
  then have law: "calls wait cs debounce = survivors \<lfloor>wait\<rfloor> cs"
    using expect_survivors[OF w, of g a cs' g r] by (simp add: cs)
  have fast: "(\<forall>(gap, host, args) \<in> set (tl cs). int gap < \<lfloor>wait\<rfloor>) \<longrightarrow>
      calls wait cs debounce = [snd (snd (last cs))]"
    using survivors_fast[of cs' "\<lfloor>wait\<rfloor>" "(g, r, a)"] law by (simp add: cs)
  have slow: "(\<forall>(gap, host, args) \<in> set (tl cs). \<lfloor>wait\<rfloor> \<le> int gap \<and> host) \<longrightarrow>
      calls wait cs debounce = map (\<lambda>(gap, host, args). args) cs"
    using survivors_slow[of cs' "\<lfloor>wait\<rfloor>" "(g, r, a)"] law by (simp add: cs)
  have fresh: "pending (fst (debounced wait args (tm, Some h))) =
      filter (\<lambda>(i, u, b). i \<noteq> h) (pending tm) @
      [(next_id tm, now tm + nat \<lfloor>wait\<rfloor>, args)]"
    using range by (simp add: debounced_pending host_delay_def)
  from fast slow law fresh show ?thesis by blast
qed

text \<open>
  The scenario of the specification: with a wait of 100, a search for "123 Main"
  followed 50 ms later by one for "123 Main St" yields a single invocation, for
  "123 Main St", whether the host gets to its timers in between or not; three calls
  spaced by at least the wait, each made after the host ran the timer of the one
  before, are all invoked; in a mixed session the calls that are superseded are the
  ones dropped; a wait of 100.5 counts as 100.
\<close>

theorem debounce_coalesces_and_separates_witness:
  "calls 100 [(0, True, ''123 Main''), (50, True, ''123 Main St'')] debounce =
     [''123 Main St''] \<and>
   calls 100 [(7, False, ''a''), (100, True, ''ab''), (250, True, ''abc'')] debounce =
     [''a'', ''ab'', ''abc''] \<and>
   calls 100 [(5, True, ''a''), (100, True, ''b''), (99, True, ''c''), (300, False, ''d'')] debounce =
     [''a'', ''d''] \<and>
   calls 100.5 [(0, True, ''a''), (99, True, ''b'')] debounce = [''b'']"
proof -
  have w: "(1::real) \<le> 100" "(100::real) \<le> 2147483647" by simp_all
  have a: "[(0::nat, True, ''123 Main''), (50, True, ''123 Main St'')] \<noteq> []" by simp
  have b: "[(7::nat, False, ''a''), (100, True, ''ab''), (250, True, ''abc'')] \<noteq> []" by simp
  have c: "[(5::nat, True, ''a''), (100, True, ''b''), (99, True, ''c''), (300, False, ''d'')] \<noteq> []"
    by simp
  have v: "(1::real) \<le> 100.5" "(100.5::real) \<le> 2147483647" by simp_all
  have d: "[(0::nat, True, ''a''), (99, True, ''b'')] \<noteq> []" by simp
  from debounce_coalesces_and_separates[OF w a, of "''x''" no_timers 1]
       debounce_coalesces_and_separates[OF v d, of "''x''" no_timers 1]
       debounce_coalesces_and_separates[OF w b, of "''x''" no_timers 1]
       debounce_coalesces_and_separates[OF w c, of "''x''" no_timers 1]
  show ?thesis by simp
qed

text \<open>
  The claim as stated fails in its second half, and in its first half for a wait the
  host does not honour. Two calls at least the wait apart, the second made when the
  timer of the first is due but has not run yet (it comes at the very instant the
  timer is due, or 250 ms later on a busy thread): the second call clears that timer
  and only its own arguments reach the wrapped function. And with a wait of \<open>2^31\<close>,
  two calls 10 ms apart come strictly sooner than the wait, yet both are invoked.
\<close>

theorem due_timer_is_cancelled_by_next_call:
  "calls 100 [(0, True, ''a''), (100, False, ''b'')] debounce = [''b''] \<and>
   calls 100 [(0, True, ''a''), (250, False, ''b'')] debounce = [''b''] \<and>
   calls 2147483648 [(0, True, ''a''), (10, True, ''b'')] debounce = [''a'', ''b'']"
  by (simp add: debounce_def no_timers_def debounced_def setTimeout_def clearTimeout_def
        host_delay_def elapse_def run_due_def Let_def)

section \<open>The process: lemmas about steps\<close>

subsection \<open>What a step leaves alone\<close>

lemma length_modify [simp]: "length (modify k f xs) = length xs"
  by (simp add: modify_def)

lemma nth_modify:
  "j < length xs \<Longrightarrow> modify k f xs ! j = (if j = k then f (xs ! j) else xs ! j)"
  by (simp add: modify_def)

lemma insts_on_inst: "insts (on_inst i f w) = modify i f (insts w)"
  by (simp add: on_inst_def)

lemma on_inst_frame [simp]:
  "googleMapsApiLoaded (on_inst i f w) = googleMapsApiLoaded w"
  "google_places (on_inst i f w) = google_places w"
  "document_head (on_inst i f w) = document_head w"
  "console (on_inst i f w) = console w"
  "timer_queue (on_inst i f w) = timer_queue w"
  "length (insts (on_inst i f w)) = length (insts w)"
  by (simp_all add: on_inst_def)

lemma fire_frame [simp]:
  "googleMapsApiLoaded (fire e w) = googleMapsApiLoaded w"
  "google_places (fire e w) = google_places w"
  "document_head (fire e w) = document_head w"
  "console (fire e w) = console w"
  "timer_queue (fire e w) = timer_queue w"
  "length (insts (fire e w)) = length (insts w)"
  by (simp_all add: fire_def split: prod.splits)

lemma time_passes_frame [simp]:
  "googleMapsApiLoaded (time_passes d w) = googleMapsApiLoaded w"
  "google_places (time_passes d w) = google_places w"
  "document_head (time_passes d w) = document_head w"
  "console (time_passes d w) = console w"
  "insts (time_passes d w) = insts w"
  by (simp_all add: time_passes_def)

lemma timer_fires_frame [simp]:
  "googleMapsApiLoaded (timer_fires h w) = googleMapsApiLoaded w"
  "google_places (timer_fires h w) = google_places w"
  "document_head (timer_fires h w) = document_head w"
  "console (timer_fires h w) = console w"
  "length (insts (timer_fires h w)) = length (insts w)"
  by (simp_all add: timer_fires_def split: prod.splits option.splits)

subsection \<open>A step moves every instance by its own moves\<close>

lemma fire_moves:
  "j < length (insts w) \<Longrightarrow> inst_move\<^sup>*\<^sup>* (insts w ! j) (insts (fire e w) ! j)"
  by (auto simp: fire_def insts_on_inst nth_modify inst_move.timer_ran split: prod.splits)

lemma timer_fires_moves:
  assumes j: "j < length (insts w)"
  shows "inst_move\<^sup>*\<^sup>* (insts w ! j) (insts (timer_fires h w) ! j)"
proof (cases "fst (run_timer h (timer_queue w))")
  case None
  then show ?thesis by (simp add: timer_fires_def split_beta)
next
  case (Some e)
  obtain i input where e: "e = (i, input)" by (cases e)
  let ?tm = "snd (run_timer h (timer_queue w))"
  from j have "inst_move\<^sup>*\<^sup>* (insts (w\<lparr>timer_queue := ?tm\<rparr>) ! j)
      (insts (fire (now ?tm, i, input) (w\<lparr>timer_queue := ?tm\<rparr>)) ! j)"
    by (intro fire_moves) simp
  with Some e show ?thesis by (simp add: timer_fires_def split_beta)
qed

lemma loadGoogleMapsApi_insts [simp]:
  "insts (snd (loadGoogleMapsApi key libs lang w)) = insts w"
  "googleMapsApiLoaded (snd (loadGoogleMapsApi key libs lang w)) = googleMapsApiLoaded w"
  by (simp_all add: loadGoogleMapsApi_def)

lemma onMounted_moves:
  "j < length (insts w) \<Longrightarrow> init (insts w ! i) = Unmounted \<Longrightarrow>
     inst_move\<^sup>*\<^sup>* (insts w ! j) (insts (onMounted i w) ! j)"
  by (auto simp: onMounted_def Let_def insts_on_inst nth_modify loadGoogleMapsApi_def
        inst_move.mount_ready inst_move.mount_await split: prod.splits load.splits)

lemma resume_moves: "inst_move\<^sup>*\<^sup>* c (onMounted_resume k ok c)"
  by (auto simp: onMounted_resume_def inst_move.load_ok inst_move.load_failed)

lemma fetchPredictions_moves:
  "j < length (insts w) \<Longrightarrow> inst_move\<^sup>*\<^sup>* (insts w ! j) (insts (fetchPredictions i input w) ! j)"
  by (auto simp: fetchPredictions_def Let_def nth_list_update inst_move.timer_set
        split: prod.splits)

lemma step_length: "length (insts w) \<le> length (insts (step ev w))"
  by (cases ev)
     (auto simp: onMounted_def Let_def loadGoogleMapsApi_def fetchPredictions_def
        script_onload_def script_onerror_def split: prod.splits load.splits)

lemma step_moves:
  assumes j: "j < length (insts w)"
  shows "inst_move\<^sup>*\<^sup>* (insts w ! j) (insts (step ev w) ! j)"
proof (cases ev)
  case (Create key options)
  with j show ?thesis by (simp add: nth_append)
next
  case (Mounted i)
  with j show ?thesis by (simp add: onMounted_moves)
next
  case (ScriptLoad k)
  with j show ?thesis by (simp add: resume_moves)
next
  case (ScriptError k)
  with j show ?thesis by (simp add: resume_moves)
next
  case GoogleDefined
  with j show ?thesis by simp
next
  case (Search i input)
  with j show ?thesis by (simp add: fetchPredictions_moves)
next
  case (Elapse d)
  with j show ?thesis by simp
next
  case (TimerFires h)
  with j show ?thesis by (simp add: timer_fires_moves)
next
  case (PredictionsReply i results)
  with j show ?thesis
    by (auto simp: insts_on_inst nth_modify inst_move.predictions_reply)
next
  case (Details i placeId)
  with j show ?thesis
    by (auto simp: insts_on_inst nth_modify inst_move.details_asked)
next
  case (DetailsReply i k place status)
  with j show ?thesis
    by (auto simp: insts_on_inst nth_modify inst_move.details_reply)
next
  case (Reset i)
  with j show ?thesis
    by (auto simp: insts_on_inst nth_modify inst_move.reset)
qed

lemma run_length: "length (insts w) \<le> length (insts (run evs w))"
proof (induction evs arbitrary: w)
  case Nil
  then show ?case by (simp add: run_def)
next
  case (Cons ev evs)
  have "length (insts w) \<le> length (insts (step ev w))" by (rule step_length)
  also have "\<dots> \<le> length (insts (run evs (step ev w)))" by (rule Cons.IH)
  finally show ?case by (simp add: run_def)
qed

lemma run_moves:
  "j < length (insts w) \<Longrightarrow> inst_move\<^sup>*\<^sup>* (insts w ! j) (insts (run evs w) ! j)"
proof (induction evs arbitrary: w)
  case Nil
  then show ?case by (simp add: run_def)
next
  case (Cons ev evs)
  have j: "j < length (insts (step ev w))"
    using Cons.prems step_length[of w ev] by simp
  have "inst_move\<^sup>*\<^sup>* (insts w ! j) (insts (step ev w) ! j)"
    using Cons.prems by (rule step_moves)
  moreover have "inst_move\<^sup>*\<^sup>* (insts (step ev w) ! j) (insts (run evs (step ev w)) ! j)"
    using j by (rule Cons.IH)
  ultimately show ?case by (simp add: run_def)
qed

subsection \<open>Invariants of an instance\<close>

lemma fresh_inv: "init_inv (useGooglePlacesAutocomplete key options)"
  by (simp add: init_inv_def never_loaded_def useGooglePlacesAutocomplete_def)

lemma no_pending_details:
  "list_all (\<lambda>p. p = Fulfilled Undefined) ps \<Longrightarrow> k < length ps \<Longrightarrow> ps ! k \<noteq> Pending"
  by (simp add: list_all_length)

lemma move_inv: "inst_move c c' \<Longrightarrow> init_inv c \<Longrightarrow> init_inv c'"
  by (induction rule: inst_move.induct)
     (auto simp: init_inv_def never_loaded_def api_ready_def fetchPredictions_body_def
        getPlacePredictions_callback_def fetchPlaceDetails_def getDetails_callback_def
        resetPredictions_def dest: no_pending_details)

lemma moves_inv: "inst_move\<^sup>*\<^sup>* c c' \<Longrightarrow> init_inv c \<Longrightarrow> init_inv c'"
  by (induction rule: rtranclp_induct) (auto intro: move_inv)

lemma move_loaded: "inst_move c c' \<Longrightarrow> isGoogleMapsApiLoaded c \<Longrightarrow> isGoogleMapsApiLoaded c'"
  by (induction rule: inst_move.induct)
     (auto simp: api_ready_def fetchPredictions_body_def
        getPlacePredictions_callback_def fetchPlaceDetails_def getDetails_callback_def
        resetPredictions_def)

lemma moves_loaded: "inst_move\<^sup>*\<^sup>* c c' \<Longrightarrow> isGoogleMapsApiLoaded c \<Longrightarrow> isGoogleMapsApiLoaded c'"
  by (induction rule: rtranclp_induct) (auto intro: move_loaded)

lemma move_failed:
  "inst_move c c' \<Longrightarrow> init c = Settled \<and> \<not> isGoogleMapsApiLoaded c \<Longrightarrow>
     init c' = Settled \<and> \<not> isGoogleMapsApiLoaded c'"
  by (induction rule: inst_move.induct)
     (auto simp: api_ready_def fetchPredictions_body_def
        getPlacePredictions_callback_def fetchPlaceDetails_def getDetails_callback_def
        resetPredictions_def)

lemma moves_failed:
  "inst_move\<^sup>*\<^sup>* c c' \<Longrightarrow> init c = Settled \<and> \<not> isGoogleMapsApiLoaded c \<Longrightarrow>
     init c' = Settled \<and> \<not> isGoogleMapsApiLoaded c'"
  by (induction rule: rtranclp_induct) (auto dest: move_failed)

subsection \<open>How the two load flags change\<close>

lemma fetchPredictions_frame [simp]:
  "googleMapsApiLoaded (fetchPredictions i input w) = googleMapsApiLoaded w"
  "google_places (fetchPredictions i input w) = google_places w"
  "document_head (fetchPredictions i input w) = document_head w"
  "console (fetchPredictions i input w) = console w"
  "length (insts (fetchPredictions i input w)) = length (insts w)"
  by (simp_all add: fetchPredictions_def Let_def split_beta)

lemma onMounted_flag [simp]:
  "googleMapsApiLoaded (onMounted i w) = googleMapsApiLoaded w"
  by (simp add: onMounted_def Let_def loadGoogleMapsApi_def split: prod.splits load.splits)

lemma step_flag:
  "googleMapsApiLoaded (step ev w) =
     (googleMapsApiLoaded w \<or> (\<exists>k. ev = ScriptLoad k \<and> script_loading k w))"
  by (cases ev) (auto simp: script_onload_def script_onerror_def)

lemma run_flag: "googleMapsApiLoaded w \<Longrightarrow> googleMapsApiLoaded (run evs w)"
proof (induction evs arbitrary: w)
  case Nil
  then show ?case by (simp add: run_def)
next
  case (Cons ev evs)
  from Cons.prems have "googleMapsApiLoaded (step ev w)" by (simp add: step_flag)
  then have "googleMapsApiLoaded (run evs (step ev w))" by (rule Cons.IH)
  then show ?case by (simp add: run_def)
qed

lemma body_loaded [simp]:
  "isGoogleMapsApiLoaded (snd (fetchPredictions_body places input c)) = isGoogleMapsApiLoaded c"
  by (simp add: fetchPredictions_body_def)

lemma fire_loaded:
  "j < length (insts w) \<Longrightarrow>
     isGoogleMapsApiLoaded (insts (fire e w) ! j) = isGoogleMapsApiLoaded (insts w ! j)"
  by (simp add: fire_def insts_on_inst nth_modify split: prod.splits)

lemma timer_fires_loaded:
  "j < length (insts w) \<Longrightarrow>
     isGoogleMapsApiLoaded (insts (timer_fires h w) ! j) = isGoogleMapsApiLoaded (insts w ! j)"
  by (simp add: timer_fires_def split_beta fire_loaded split: option.splits)

lemma fetchPredictions_loaded:
  "j < length (insts w) \<Longrightarrow>
     isGoogleMapsApiLoaded (insts (fetchPredictions i input w) ! j) =
       isGoogleMapsApiLoaded (insts w ! j)"
  by (simp add: fetchPredictions_def Let_def split_beta nth_list_update)

lemma onMounted_loaded:
  "j < length (insts w) \<Longrightarrow>
     isGoogleMapsApiLoaded (insts (onMounted i w) ! j) =
       (isGoogleMapsApiLoaded (insts w ! j) \<or>
        j = i \<and> (google_places w \<or> googleMapsApiLoaded w))"
  by (auto simp: onMounted_def Let_def loadGoogleMapsApi_def insts_on_inst nth_modify
        api_ready_def)

lemma step_loaded:
  assumes j: "j < length (insts w)"
  shows "isGoogleMapsApiLoaded (insts (step ev w) ! j) =
     (isGoogleMapsApiLoaded (insts w ! j) \<or>
      (ev = Mounted j \<and> init (insts w ! j) = Unmounted \<and>
         (google_places w \<or> googleMapsApiLoaded w)) \<or>
      (\<exists>k. ev = ScriptLoad k \<and> script_loading k w \<and> init (insts w ! j) = Awaiting k))"
proof (cases ev)
  case (Create key options)
  with j show ?thesis by (simp add: nth_append)
next
  case (Mounted i)
  with j show ?thesis by (auto simp: onMounted_loaded)
next
  case (ScriptLoad k)
  with j show ?thesis by (auto simp: onMounted_resume_def api_ready_def)
next
  case (ScriptError k)
  with j show ?thesis by (auto simp: onMounted_resume_def)
next
  case GoogleDefined
  then show ?thesis by simp
next
  case (Search i input)
  with j show ?thesis by (simp add: fetchPredictions_loaded)
next
  case (Elapse d)
  with j show ?thesis by simp
next
  case (TimerFires h)
  with j show ?thesis by (simp add: timer_fires_loaded)
next
  case (PredictionsReply i results)
  with j show ?thesis
    by (auto simp: insts_on_inst nth_modify getPlacePredictions_callback_def)
next
  case (Details i placeId)
  with j show ?thesis
    by (auto simp: insts_on_inst nth_modify fetchPlaceDetails_def)
next
  case (DetailsReply i k place status)
  with j show ?thesis
    by (auto simp: insts_on_inst nth_modify getDetails_callback_def)
next
  case (Reset i)
  with j show ?thesis
    by (auto simp: insts_on_inst nth_modify resetPredictions_def)
qed

lemma fire_insts:
  "i < length (insts w) \<Longrightarrow>
     fire (t, i, input) w =
       w\<lparr>insts := (insts w)[i := snd (fetchPredictions_body (google_places w) input (insts w ! i))]\<rparr>"
  by (simp add: fire_def on_inst_def modify_def)

text \<open>The definitions a concrete run is evaluated with.\<close>

lemmas world_simps =
  run_def useGooglePlacesAutocomplete_def default_options_def or_number_def or_string_def
  or_object_def initial_world_def no_timers_def onMounted_def loadGoogleMapsApi_def
  on_inst_def modify_def api_ready_def Let_def script_loading_def maps_url_def
  script_onload_def script_onerror_def settle_def onMounted_resume_def load_error_log_def
  fetchPredictions_def debounced_def setTimeout_def clearTimeout_def host_delay_def
  time_passes_def timer_fires_def elapse_def run_timer_def run_due_def fire_def
  fetchPredictions_body_def prediction_request_def
  getPlacePredictions_callback_def fetchPlaceDetails_def getDetails_callback_def
  resetPredictions_def

section \<open>The claims\<close>

text \<open>
  C2, as amended. For every invocation of the search body (the function the debounce
  timer calls) on an instance whose API flag is set, while \<^verbatim>\<open>google.maps.places\<close> is
  defined, with a non-empty input: the function completes, \<open>loading\<close> becomes true and
  exactly one request is issued, the object \<^verbatim>\<open>{ input, ...predictionOptions }\<close>; run
  by the host as a timer, this changes the instance concerned and nothing else. When
  the service answers, whatever the state \<open>c'\<close> then is, \<open>predictions\<close> is replaced by the
  answer as it came (by the empty list for \<^verbatim>\<open>null\<close>), \<open>loading\<close> becomes false and no
  further request is issued.
\<close>

theorem search_issues_one_query:
  assumes "isGoogleMapsApiLoaded c" and "input \<noteq> []"
  shows "fetchPredictions_body True input c =
           (Fulfilled (),
            c\<lparr>loading := True,
              requests := requests c @ [[''input'' \<mapsto> JStr input] ++ predictionOptions c],
              unanswered := Suc (unanswered c)\<rparr>) \<and>
         (i < length (insts w) \<and> insts w ! i = c \<and> google_places w \<longrightarrow>
            fire (t, i, input) w =
              w\<lparr>insts := (insts w)[i := snd (fetchPredictions_body True input c)]\<rparr>) \<and>
         getPlacePredictions_callback results c' =
           c'\<lparr>predictions := (case results of None \<Rightarrow> [] | Some rs \<Rightarrow> rs),
              loading := False, unanswered := unanswered c' - 1\<rparr> \<and>
         predictions
           (getPlacePredictions_callback results (snd (fetchPredictions_body True input c))) =
           (case results of None \<Rightarrow> [] | Some rs \<Rightarrow> rs) \<and>
         \<not> loading
           (getPlacePredictions_callback results (snd (fetchPredictions_body True input c))) \<and>
         requests
           (getPlacePredictions_callback results (snd (fetchPredictions_body True input c))) =
           requests c @ [[''input'' \<mapsto> JStr input] ++ predictionOptions c]"
  using assms
  by (simp add: fetchPredictions_body_def prediction_request_def
        getPlacePredictions_callback_def fire_insts)

theorem search_issues_one_query_witness:
  "predictions
     (getPlacePredictions_callback
        (Some [\<lparr>description = ''A St'', place_id = ''a''\<rparr>,
               \<lparr>description = ''B Ave'', place_id = ''b''\<rparr>])
        (snd (fetchPredictions_body True ''123 Main''
                (api_ready (useGooglePlacesAutocomplete ''key'' default_options))))) =
     [\<lparr>description = ''A St'', place_id = ''a''\<rparr>, \<lparr>description = ''B Ave'', place_id = ''b''\<rparr>] \<and>
   predictions
     (getPlacePredictions_callback None
        (snd (fetchPredictions_body True ''123 Main''
                (api_ready (useGooglePlacesAutocomplete ''key'' default_options))))) = [] \<and>
   map (\<lambda>r. r ''input'')
     (requests (snd (fetchPredictions_body True ''123 Main''
        (api_ready (useGooglePlacesAutocomplete ''key'' default_options))))) =
     [Some (JStr ''123 Main'')] \<and>
   loading (snd (fetchPredictions_body True ''123 Main''
        (api_ready (useGooglePlacesAutocomplete ''key'' default_options)))) \<and>
   map (\<lambda>c. (loading c, length (requests c)))
     (insts (fire (300, 0, ''123 Main'')
        (initial_world
           \<lparr>google_places := True,
            insts := [api_ready (useGooglePlacesAutocomplete ''key'' default_options)]\<rparr>))) =
     [(True, 1)]"
proof -
  let ?c = "api_ready (useGooglePlacesAutocomplete ''key'' default_options)"
  let ?w = "initial_world\<lparr>google_places := True, insts := [?c]\<rparr>"
  have a: "isGoogleMapsApiLoaded ?c" by (simp add: api_ready_def)
  have b: "''123 Main'' \<noteq> []" by simp
  have r: "requests ?c = []" by (simp add: api_ready_def useGooglePlacesAutocomplete_def)
  from search_issues_one_query[OF a b, of 0 ?w 300
         "Some [\<lparr>description = ''A St'', place_id = ''a''\<rparr>,
                \<lparr>description = ''B Ave'', place_id = ''b''\<rparr>]" ?c]
       search_issues_one_query[OF a b, of 0 ?w 300 None ?c]
       r
  show ?thesis by (simp add: world_simps)
qed

text \<open>
  The claim as stated fails where the API flag is set while \<^verbatim>\<open>google.maps.places\<close>
  is not defined. An instance configured with the libraries \<^verbatim>\<open>['geometry']\<close> is mounted,
  its script loads, a search for "abc" is made and its timer runs when due: the flag
  is set and the input is not empty, \<open>loading\<close> has been set, but no request has been
  issued.
\<close>

theorem search_without_places_issues_no_query:
  "isGoogleMapsApiLoaded
     (insts (run [Create ''key'' (default_options\<lparr>opt_libraries := Some [''geometry'']\<rparr>),
                  Mounted 0, ScriptLoad 0, Search 0 ''abc'', Elapse 300, TimerFires 1]
               initial_world) ! 0) \<and>
   loading
     (insts (run [Create ''key'' (default_options\<lparr>opt_libraries := Some [''geometry'']\<rparr>),
                  Mounted 0, ScriptLoad 0, Search 0 ''abc'', Elapse 300, TimerFires 1]
               initial_world) ! 0) \<and>
   requests
     (insts (run [Create ''key'' (default_options\<lparr>opt_libraries := Some [''geometry'']\<rparr>),
                  Mounted 0, ScriptLoad 0, Search 0 ''abc'', Elapse 300, TimerFires 1]
               initial_world) ! 0) = [] \<and>
   \<not> loading
     (insts (run [Create ''key'' (default_options\<lparr>opt_libraries := Some [''geometry'']\<rparr>),
                  Mounted 0, ScriptLoad 0, Search 0 ''abc'', Elapse 300]
               initial_world) ! 0)"
  by (simp add: world_simps)

text \<open>
  In general, past the guard and without the places namespace the body ends in the
  \<^verbatim>\<open>TypeError\<close>, having set \<open>loading\<close> and nothing else.
\<close>

lemma search_body_without_places:
  "isGoogleMapsApiLoaded c \<Longrightarrow> input \<noteq> [] \<Longrightarrow>
     fetchPredictions_body False input c = (Rejected TypeError, c\<lparr>loading := True\<rparr>)"
  by (simp add: fetchPredictions_body_def)

text \<open>
  C3. For every invocation of the search body on an instance whose API flag is not
  set, or with the empty input, nothing changes, whether \<^verbatim>\<open>google.maps.places\<close> is
  defined or not: the function completes and the instance is left as it was (no
  request, \<open>loading\<close> and \<open>predictions\<close> untouched), and so is the whole process when the
  host runs the invocation as a timer.
\<close>

theorem search_without_api_or_input_is_noop:
  assumes "\<not> isGoogleMapsApiLoaded c \<or> input = []"
  shows "fetchPredictions_body places input c = (Fulfilled (), c) \<and>
         (i < length (insts w) \<and> insts w ! i = c \<longrightarrow> fire (t, i, input) w = w)"
  using assms by (auto simp: fetchPredictions_body_def fire_insts)

theorem search_without_api_or_input_is_noop_witness:
  "fetchPredictions_body True ''abc'' (useGooglePlacesAutocomplete ''key'' default_options) =
     (Fulfilled (), useGooglePlacesAutocomplete ''key'' default_options) \<and>
   fetchPredictions_body True []
     ((api_ready (useGooglePlacesAutocomplete ''key'' default_options))
        \<lparr>predictions := [\<lparr>description = ''A St'', place_id = ''a''\<rparr>]\<rparr>) =
     (Fulfilled (),
      (api_ready (useGooglePlacesAutocomplete ''key'' default_options))
        \<lparr>predictions := [\<lparr>description = ''A St'', place_id = ''a''\<rparr>]\<rparr>)"
proof -
  let ?c = "useGooglePlacesAutocomplete ''key'' default_options"
  let ?d = "(api_ready ?c)\<lparr>predictions := [\<lparr>description = ''A St'', place_id = ''a''\<rparr>]\<rparr>"
  have a: "\<not> isGoogleMapsApiLoaded ?c \<or> ''abc'' = []"
    by (simp add: useGooglePlacesAutocomplete_def)
  have b: "\<not> isGoogleMapsApiLoaded ?d \<or> ([]::string) = []" by simp
  from search_without_api_or_input_is_noop[OF a, of True 0 "initial_world\<lparr>insts := [?c]\<rparr>" 300]
       search_without_api_or_input_is_noop[OF b, of True 0 "initial_world\<lparr>insts := [?d]\<rparr>" 300]
  show ?thesis by (simp add: world_simps)
qed




text \<open>
  In general, with the flag set and without the places namespace the call makes no
  lookup and returns a promise rejected with the \<^verbatim>\<open>TypeError\<close>.
\<close>

lemma details_without_places:
  "isGoogleMapsApiLoaded c \<Longrightarrow>
     fetchPlaceDetails False placeId c =
       (length (details c), c\<lparr>details := details c @ [Rejected TypeError]\<rparr>)"
  by (simp add: fetchPlaceDetails_def)

text \<open>
  C5. When the process-wide flag is set, the loader returns a resolved promise and
  leaves the document as it is. Otherwise it appends one script whose URL carries
  \<^verbatim>\<open>key\<close>, the libraries joined by commas, and \<^verbatim>\<open>language\<close>, and returns the promise
  of that script: its load event sets the flag and fulfils the promise, its error
  event rejects the promise with the error "Failed to load Google Maps API" and leaves the flag
  alone. Two requests made while the flag is still unset append a script each.
\<close>

theorem loader_inserts_one_script_per_request:
  "(googleMapsApiLoaded w \<longrightarrow> loadGoogleMapsApi key libs lang w = (Resolved, w)) \<and>
   (\<not> googleMapsApiLoaded w \<longrightarrow>
      loadGoogleMapsApi key libs lang w =
        (OnScript (length (document_head w)),
         w\<lparr>document_head := document_head w @
              [\<lparr>script_src = ''https://maps.googleapis.com/maps/api/js?key='' @ key @
                   ''&libraries='' @ join '','' libs @ ''&language='' @ lang,
                script_async = True, script_defer = True, script_promise = Pending\<rparr>]\<rparr>)) \<and>
   (script_loading k w \<longrightarrow>
      googleMapsApiLoaded (script_onload k w) \<and>
      script_promise (document_head (script_onload k w) ! k) = Fulfilled () \<and>
      googleMapsApiLoaded (script_onerror k w) = googleMapsApiLoaded w \<and>
      script_promise (document_head (script_onerror k w) ! k) =
        Rejected (Error ''Failed to load Google Maps API'')) \<and>
   (\<not> googleMapsApiLoaded w \<longrightarrow>
      document_head (snd (loadGoogleMapsApi key' libs' lang'
                            (snd (loadGoogleMapsApi key libs lang w)))) =
        document_head w @
          [\<lparr>script_src = maps_url key libs lang, script_async = True, script_defer = True,
             script_promise = Pending\<rparr>,
           \<lparr>script_src = maps_url key' libs' lang', script_async = True, script_defer = True,
             script_promise = Pending\<rparr>] \<and>
      fst (loadGoogleMapsApi key' libs' lang' (snd (loadGoogleMapsApi key libs lang w))) =
        OnScript (Suc (length (document_head w))))"
  by (simp add: loadGoogleMapsApi_def maps_url_def script_loading_def script_onload_def
        script_onerror_def modify_def settle_def)

theorem loader_inserts_one_script_per_request_witness:
  "script_src
     (document_head
        (snd (loadGoogleMapsApi ''KEY'' [''places'', ''geometry''] ''pt-BR'' initial_world)) ! 0) =
     ''https://maps.googleapis.com/maps/api/js?key=KEY&libraries=places,geometry&language=pt-BR'' \<and>
   length (document_head
        (snd (loadGoogleMapsApi ''KEY'' [''places''] ''en''
           (snd (loadGoogleMapsApi ''KEY'' [''places'', ''geometry''] ''pt-BR'' initial_world))))) = 2 \<and>
   googleMapsApiLoaded
     (script_onload 0
        (snd (loadGoogleMapsApi ''KEY'' [''places'', ''geometry''] ''pt-BR'' initial_world))) \<and>
   script_promise
     (document_head
        (script_onerror 0
           (snd (loadGoogleMapsApi ''KEY'' [''places'', ''geometry''] ''pt-BR'' initial_world))) ! 0) =
     Rejected (Error ''Failed to load Google Maps API'') \<and>
   loadGoogleMapsApi ''KEY'' [''places''] ''en''
     (script_onload 0
        (snd (loadGoogleMapsApi ''KEY'' [''places'', ''geometry''] ''pt-BR'' initial_world))) =
     (Resolved,
      script_onload 0
        (snd (loadGoogleMapsApi ''KEY'' [''places'', ''geometry''] ''pt-BR'' initial_world)))"
proof -
  let ?w1 = "snd (loadGoogleMapsApi ''KEY'' [''places'', ''geometry''] ''pt-BR'' initial_world)"
  have a: "\<not> googleMapsApiLoaded initial_world" by (simp add: initial_world_def)
  have h: "document_head initial_world = []" by (simp add: initial_world_def)
  have b: "script_loading 0 ?w1"
    by (simp add: script_loading_def loadGoogleMapsApi_def initial_world_def)
  from loader_inserts_one_script_per_request
         [of initial_world "''KEY''" "[''places'', ''geometry'']" "''pt-BR''" 0
             "''KEY''" "[''places'']" "''en''"]
       loader_inserts_one_script_per_request
         [of ?w1 "''KEY''" "[''places'']" "''en''" 0 "''KEY''" "[''places'']" "''en''"]
       loader_inserts_one_script_per_request
         [of "script_onload 0 ?w1" "''KEY''" "[''places'']" "''en''" 0
             "''KEY''" "[''places'']" "''en''"]
       a b h
  show ?thesis by (simp add: world_simps)
qed

text \<open>
  C6. The process-wide flag is unset in the initial process and the API flag is unset
  in a new instance. Along every run of the process both only rise: a flag that is set
  stays set. A step sets the process-wide flag only if it is the load event of a script
  that was still loading, and every such event sets it. A step sets the API flag of an
  instance only if it is the mount hook of that instance finding the API present (or
  the process-wide flag set), or the load event of the script the hook is waiting for.
\<close>

theorem load_flags_only_rise:
  "\<not> googleMapsApiLoaded initial_world \<and>
   \<not> isGoogleMapsApiLoaded (useGooglePlacesAutocomplete key options) \<and>
   (googleMapsApiLoaded w \<longrightarrow> googleMapsApiLoaded (run evs w)) \<and>
   (googleMapsApiLoaded (step ev w) \<and> \<not> googleMapsApiLoaded w \<longrightarrow>
      (\<exists>k. ev = ScriptLoad k \<and> script_loading k w)) \<and>
   (script_loading k w \<longrightarrow> googleMapsApiLoaded (step (ScriptLoad k) w)) \<and>
   (i < length (insts w) \<and> isGoogleMapsApiLoaded (insts w ! i) \<longrightarrow>
      isGoogleMapsApiLoaded (insts (run evs w) ! i)) \<and>
   (i < length (insts w) \<and> isGoogleMapsApiLoaded (insts (step ev w) ! i) \<and>
    \<not> isGoogleMapsApiLoaded (insts w ! i) \<longrightarrow>
      (ev = Mounted i \<and> init (insts w ! i) = Unmounted \<and>
         (google_places w \<or> googleMapsApiLoaded w)) \<or>
      (\<exists>k. ev = ScriptLoad k \<and> script_loading k w \<and> init (insts w ! i) = Awaiting k))"
proof -
  have "\<not> googleMapsApiLoaded initial_world"
    by (simp add: initial_world_def)
  moreover have "\<not> isGoogleMapsApiLoaded (useGooglePlacesAutocomplete key options)"
    by (simp add: useGooglePlacesAutocomplete_def)
  moreover have "googleMapsApiLoaded w \<longrightarrow> googleMapsApiLoaded (run evs w)"
    by (simp add: run_flag)
  moreover have "googleMapsApiLoaded (step ev w) \<and> \<not> googleMapsApiLoaded w \<longrightarrow>
      (\<exists>k. ev = ScriptLoad k \<and> script_loading k w)"
    using step_flag[of ev w] by blast
  moreover have "script_loading k w \<longrightarrow> googleMapsApiLoaded (step (ScriptLoad k) w)"
    using step_flag[of "ScriptLoad k" w] by blast
  moreover have "i < length (insts w) \<and> isGoogleMapsApiLoaded (insts w ! i) \<longrightarrow>
      isGoogleMapsApiLoaded (insts (run evs w) ! i)"
    using run_moves[of i w evs] moves_loaded by blast
  moreover have "i < length (insts w) \<and> isGoogleMapsApiLoaded (insts (step ev w) ! i) \<and>
    \<not> isGoogleMapsApiLoaded (insts w ! i) \<longrightarrow>
      (ev = Mounted i \<and> init (insts w ! i) = Unmounted \<and>
         (google_places w \<or> googleMapsApiLoaded w)) \<or>
      (\<exists>k. ev = ScriptLoad k \<and> script_loading k w \<and> init (insts w ! i) = Awaiting k)"
    using step_loaded[of i w ev] by blast
  ultimately show ?thesis by blast
qed

theorem load_flags_only_rise_witness:
  "\<not> googleMapsApiLoaded (run [Create ''key'' default_options, Mounted 0] initial_world) \<and>
   \<not> isGoogleMapsApiLoaded
       (insts (run [Create ''key'' default_options, Mounted 0] initial_world) ! 0) \<and>
   googleMapsApiLoaded
     (step (ScriptLoad 0) (run [Create ''key'' default_options, Mounted 0] initial_world)) \<and>
   isGoogleMapsApiLoaded
     (insts (step (ScriptLoad 0)
               (run [Create ''key'' default_options, Mounted 0] initial_world)) ! 0) \<and>
   googleMapsApiLoaded
     (run [Reset 0, ScriptError 0, Elapse 10]
        (step (ScriptLoad 0) (run [Create ''key'' default_options, Mounted 0] initial_world))) \<and>
   isGoogleMapsApiLoaded
     (insts (run [Reset 0, ScriptError 0, Elapse 10]
               (step (ScriptLoad 0)
                  (run [Create ''key'' default_options, Mounted 0] initial_world))) ! 0)"
proof -
  let ?w1 = "run [Create ''key'' default_options, Mounted 0] initial_world"
  let ?w2 = "step (ScriptLoad 0) ?w1"
  have a: "\<not> googleMapsApiLoaded ?w1 \<and> \<not> isGoogleMapsApiLoaded (insts ?w1 ! 0)"
    by (simp add: world_simps)
  have b: "script_loading 0 ?w1 \<and> 0 < length (insts ?w1)"
    by (simp add: world_simps)
  have c: "isGoogleMapsApiLoaded (insts ?w2 ! 0) \<and> 0 < length (insts ?w2)"
    by (simp add: world_simps)
  from load_flags_only_rise[of "''key''" default_options ?w1 "[]" "ScriptLoad 0" 0 0]
       load_flags_only_rise[of "''key''" default_options ?w2 "[Reset 0, ScriptError 0, Elapse 10]"
          "ScriptLoad 0" 0 0]
       a b c
  show ?thesis by (simp add: world_simps)
qed

text \<open>
  C7. Take an instance from its creation, through any events, to a state where its
  mount hook waits for script \<open>k\<close>, and let that script fire its error event. Then after
  any further events the API flag of the instance is still unset, it has issued no
  prediction request and no lookup, \<open>predictions\<close> is empty and \<open>loading\<close> false, every
  promise it returned for place details is fulfilled with \<^verbatim>\<open>undefined\<close>; a search body
  invoked now completes and changes nothing, and \<open>fetchPlaceDetails\<close> returns a
  promise fulfilled with \<^verbatim>\<open>undefined\<close> and issues no lookup. Neither throws, whether
  \<^verbatim>\<open>google.maps.places\<close> is defined or not: both return before they touch it.
\<close>

theorem failed_load_is_permanent:
  assumes i: "i = length (insts w0)"
    and w1: "w1 = run evs1 (step (Create key options) w0)"
    and awaiting: "init (insts w1 ! i) = Awaiting k"
    and failing: "script_loading k w1"
    and w2: "w2 = run evs2 (step (ScriptError k) w1)"
  shows "\<not> isGoogleMapsApiLoaded (insts w2 ! i) \<and>
         predictions (insts w2 ! i) = [] \<and> \<not> loading (insts w2 ! i) \<and>
         requests (insts w2 ! i) = [] \<and> lookups (insts w2 ! i) = [] \<and>
         list_all (\<lambda>p. p = Fulfilled Undefined) (details (insts w2 ! i)) \<and>
         fetchPredictions_body places input (insts w2 ! i) = (Fulfilled (), insts w2 ! i) \<and>
         fetchPlaceDetails places placeId (insts w2 ! i) =
           (length (details (insts w2 ! i)),
            (insts w2 ! i)\<lparr>details := details (insts w2 ! i) @ [Fulfilled Undefined]\<rparr>)"
proof -
  let ?wc = "step (Create key options) w0"
  let ?we = "step (ScriptError k) w1"
  have ic: "i < length (insts ?wc)" and fresh: "init_inv (insts ?wc ! i)"
    using i by (simp_all add: fresh_inv)
  have i1: "i < length (insts w1)"
    using ic run_length[of ?wc evs1] w1 by simp
  have inv1: "init_inv (insts w1 ! i)"
    using run_moves[OF ic, of evs1] fresh w1 moves_inv by blast
  with awaiting have unloaded1: "\<not> isGoogleMapsApiLoaded (insts w1 ! i)"
    by (simp add: init_inv_def)
  have ie: "i < length (insts ?we)"
    using i1 step_length[of w1 "ScriptError k"] by simp
  have inve: "init_inv (insts ?we ! i)"
    using step_moves[OF i1, of "ScriptError k"] inv1 moves_inv by blast
  have faile: "init (insts ?we ! i) = Settled \<and> \<not> isGoogleMapsApiLoaded (insts ?we ! i)"
    using i1 awaiting failing unloaded1 by (simp add: onMounted_resume_def)
  have moves2: "inst_move\<^sup>*\<^sup>* (insts ?we ! i) (insts w2 ! i)"
    using run_moves[OF ie, of evs2] w2 by simp
  have fail2: "init (insts w2 ! i) = Settled \<and> \<not> isGoogleMapsApiLoaded (insts w2 ! i)"
    using moves_failed[OF moves2 faile] .
  have "init_inv (insts w2 ! i)"
    using moves_inv[OF moves2 inve] .
  with fail2 have "never_loaded (insts w2 ! i)"
    by (simp add: init_inv_def)
  then show ?thesis
    by (simp add: never_loaded_def fetchPredictions_body_def fetchPlaceDetails_def)
qed

theorem failed_load_is_permanent_witness:
  "\<not> isGoogleMapsApiLoaded
       (insts (run [Search 0 ''abc'', Elapse 300, TimerFires 1, Details 0 ''xyz'', Reset 0]
                (step (ScriptError 0)
                   (run [Mounted 0] (step (Create ''key'' default_options) initial_world)))) ! 0) \<and>
   requests
       (insts (run [Search 0 ''abc'', Elapse 300, TimerFires 1, Details 0 ''xyz'', Reset 0]
                (step (ScriptError 0)
                   (run [Mounted 0] (step (Create ''key'' default_options) initial_world)))) ! 0) = [] \<and>
   predictions
       (insts (run [Search 0 ''abc'', Elapse 300, TimerFires 1, Details 0 ''xyz'', Reset 0]
                (step (ScriptError 0)
                   (run [Mounted 0] (step (Create ''key'' default_options) initial_world)))) ! 0) = [] \<and>
   details
       (insts (run [Search 0 ''abc'', Elapse 300, TimerFires 1, Details 0 ''xyz'', Reset 0]
                (step (ScriptError 0)
                   (run [Mounted 0] (step (Create ''key'' default_options) initial_world)))) ! 0) =
     [Fulfilled Undefined]"
proof -
  let ?w1 = "run [Mounted 0] (step (Create ''key'' default_options) initial_world)"
  have a: "init (insts ?w1 ! 0) = Awaiting 0"
    by (simp add: world_simps)
  have b: "script_loading 0 ?w1"
    by (simp add: world_simps)
  have c: "0 = length (insts initial_world)"
    by (simp add: initial_world_def)
  from failed_load_is_permanent
         [OF c refl a b refl, where places = False and input = "''abc''" and placeId = "''xyz''"]
  show ?thesis by (simp add: world_simps)
qed

text \<open>
  C8. \<open>resetPredictions\<close> sets \<open>predictions\<close> to the empty list and changes nothing
  else: in the instance \<open>loading\<close> and the API flag keep their values, and in the
  process the step changes this one field of this one instance, so the process-wide
  flag is unchanged.
\<close>

theorem reset_clears_predictions_only:
  "resetPredictions c = c\<lparr>predictions := []\<rparr> \<and>
   predictions (resetPredictions c) = [] \<and>
   loading (resetPredictions c) = loading c \<and>
   isGoogleMapsApiLoaded (resetPredictions c) = isGoogleMapsApiLoaded c \<and>
   step (Reset i) w = w\<lparr>insts := modify i (\<lambda>c. c\<lparr>predictions := []\<rparr>) (insts w)\<rparr> \<and>
   googleMapsApiLoaded (step (Reset i) w) = googleMapsApiLoaded w \<and>
   (i < length (insts w) \<longrightarrow>
      predictions (insts (step (Reset i) w) ! i) = [] \<and>
      loading (insts (step (Reset i) w) ! i) = loading (insts w ! i) \<and>
      isGoogleMapsApiLoaded (insts (step (Reset i) w) ! i) = isGoogleMapsApiLoaded (insts w ! i))"
  by (simp add: resetPredictions_def on_inst_def modify_def)

theorem reset_clears_predictions_only_witness:
  "predictions
     (insts (step (Reset 0)
        (initial_world
           \<lparr>googleMapsApiLoaded := True,
            insts := [(api_ready (useGooglePlacesAutocomplete ''key'' default_options))
                        \<lparr>predictions := [\<lparr>description = ''A St'', place_id = ''a''\<rparr>],
                         loading := True\<rparr>]\<rparr>)) ! 0) = [] \<and>
   loading
     (insts (step (Reset 0)
        (initial_world
           \<lparr>googleMapsApiLoaded := True,
            insts := [(api_ready (useGooglePlacesAutocomplete ''key'' default_options))
                        \<lparr>predictions := [\<lparr>description = ''A St'', place_id = ''a''\<rparr>],
                         loading := True\<rparr>]\<rparr>)) ! 0) \<and>
   googleMapsApiLoaded
     (step (Reset 0)
        (initial_world
           \<lparr>googleMapsApiLoaded := True,
            insts := [(api_ready (useGooglePlacesAutocomplete ''key'' default_options))
                        \<lparr>predictions := [\<lparr>description = ''A St'', place_id = ''a''\<rparr>],
                         loading := True\<rparr>]\<rparr>))"
  using reset_clears_predictions_only
    [of "(api_ready (useGooglePlacesAutocomplete ''key'' default_options))
           \<lparr>predictions := [\<lparr>description = ''A St'', place_id = ''a''\<rparr>], loading := True\<rparr>"
        0
        "initial_world
           \<lparr>googleMapsApiLoaded := True,
            insts := [(api_ready (useGooglePlacesAutocomplete ''key'' default_options))
                        \<lparr>predictions := [\<lparr>description = ''A St'', place_id = ''a''\<rparr>],
                         loading := True\<rparr>]\<rparr>"]
  by (simp add: world_simps)

text \<open>
  C9. When \<open>predictionOptions\<close> has a property \<^verbatim>\<open>input\<close>, a search that reaches the
  service sends that value under \<^verbatim>\<open>input\<close>: the request is \<open>predictionOptions\<close> itself,
  and the text that was searched for is not in it. (A search that does not reach the
  service, for want of \<^verbatim>\<open>google.maps.places\<close>, sends nothing.)
\<close>

theorem options_input_overrides_search_text:
  assumes "isGoogleMapsApiLoaded c" and "input \<noteq> []"
    and "predictionOptions c ''input'' = Some v"
  shows "requests (snd (fetchPredictions_body True input c)) =
           requests c @ [predictionOptions c] \<and>
         last (requests (snd (fetchPredictions_body True input c))) ''input'' = Some v \<and>
         requests (snd (fetchPredictions_body False input c)) = requests c"
proof -
  have "[''input'' \<mapsto> JStr input] ++ predictionOptions c = predictionOptions c"
    using assms(3) by (auto simp: map_add_def split: option.splits)
  with assms show ?thesis
    by (simp add: fetchPredictions_body_def prediction_request_def)
qed

theorem options_input_overrides_search_text_witness:
  "last (requests
     (snd (fetchPredictions_body True ''Rome''
        (api_ready (useGooglePlacesAutocomplete ''key''
           (default_options\<lparr>opt_predictionOptions := Some [''input'' \<mapsto> JStr ''Paris'']\<rparr>))))))
     ''input'' = Some (JStr ''Paris'')"
proof -
  let ?c = "api_ready (useGooglePlacesAutocomplete ''key''
              (default_options\<lparr>opt_predictionOptions := Some [''input'' \<mapsto> JStr ''Paris'']\<rparr>))"
  have a: "isGoogleMapsApiLoaded ?c" by (simp add: api_ready_def)
  have b: "''Rome'' \<noteq> []" by simp
  have c: "predictionOptions ?c ''input'' = Some (JStr ''Paris'')"
    by (simp add: api_ready_def useGooglePlacesAutocomplete_def or_object_def)
  from options_input_overrides_search_text[OF a b c]
  show ?thesis by (simp add: world_simps)
qed

text \<open>
  C10. The defaults replace every falsy option, not only an absent one: a
  \<open>debounceTime\<close> of \<open>0\<close> becomes \<open>300\<close> and an empty \<open>language\<close> becomes "en", as the
  absent ones do. So no options give a wait of \<open>0\<close> or an empty language. (An empty
  list of libraries is truthy and is kept.)
\<close>

theorem falsy_options_get_defaults:
  "debounceTime (useGooglePlacesAutocomplete key (options\<lparr>opt_debounceTime := Some 0\<rparr>)) = 300 \<and>
   language (useGooglePlacesAutocomplete key (options\<lparr>opt_language := Some []\<rparr>)) = ''en'' \<and>
   debounceTime (useGooglePlacesAutocomplete key (options\<lparr>opt_debounceTime := None\<rparr>)) = 300 \<and>
   language (useGooglePlacesAutocomplete key (options\<lparr>opt_language := None\<rparr>)) = ''en'' \<and>
   libraries (useGooglePlacesAutocomplete key (options\<lparr>opt_libraries := Some []\<rparr>)) = [] \<and>
   debounceTime (useGooglePlacesAutocomplete key options) \<noteq> 0 \<and>
   language (useGooglePlacesAutocomplete key options) \<noteq> []"
  by (simp add: useGooglePlacesAutocomplete_def or_number_def or_string_def or_object_def
        split: option.splits)

theorem falsy_options_get_defaults_witness:
  "debounceTime (useGooglePlacesAutocomplete ''key'' (default_options\<lparr>opt_debounceTime := Some 0\<rparr>)) = 300 \<and>
   language (useGooglePlacesAutocomplete ''key'' (default_options\<lparr>opt_language := Some []\<rparr>)) = ''en''"
  using falsy_options_get_defaults[of "''key''" default_options]
  by (simp add: world_simps)

section \<open>The scenarios of the specification, run on the process\<close>

text \<open>
  With a debounce time of 100, a search for "123 Main", one for "123 Main St" 50 ms
  later and 150 ms of quiet, after which the host runs the timers, make one request,
  for "123 Main St".
\<close>

lemma scenario_one_query_after_two_fast_searches:
  "map (\<lambda>r. r ''input'')
     (requests
        (insts (run [Create ''key'' (default_options\<lparr>opt_debounceTime := Some 100\<rparr>),
                     GoogleDefined, Mounted 0, Search 0 ''123 Main'', Elapse 50,
                     Search 0 ''123 Main St'', Elapse 150, TimerFires 1, TimerFires 2]
                  initial_world) ! 0)) =
     [Some (JStr ''123 Main St'')]"
  by (simp add: world_simps)

text \<open>
  A search made when the timer of the one before is due but has not run yet supersedes
  it, although the wait has passed between the two.
\<close>

lemma scenario_due_timer_superseded:
  "map (\<lambda>r. r ''input'')
     (requests
        (insts (run [Create ''key'' (default_options\<lparr>opt_debounceTime := Some 100\<rparr>),
                     GoogleDefined, Mounted 0, Search 0 ''123 Main'', Elapse 100,
                     Search 0 ''123 Main St'', TimerFires 1, Elapse 100, TimerFires 2]
                  initial_world) ! 0)) =
     [Some (JStr ''123 Main St'')] \<and>
   map (\<lambda>r. r ''input'')
     (requests
        (insts (run [Create ''key'' (default_options\<lparr>opt_debounceTime := Some 100\<rparr>),
                     GoogleDefined, Mounted 0, Search 0 ''123 Main'', Elapse 100, TimerFires 1,
                     Search 0 ''123 Main St'', Elapse 100, TimerFires 2]
                  initial_world) ! 0)) =
     [Some (JStr ''123 Main''), Some (JStr ''123 Main St'')]"
  by (simp add: world_simps)

text \<open>Once the service has answered, the predictions are its two results, in its order.\<close>

lemma scenario_predictions_are_the_results:
  "predictions
     (insts (run [Create ''key'' default_options, GoogleDefined, Mounted 0,
                  Search 0 ''Main'', Elapse 300, TimerFires 1,
                  PredictionsReply 0
                    (Some [\<lparr>description = ''A St'', place_id = ''a''\<rparr>,
                           \<lparr>description = ''B Ave'', place_id = ''b''\<rparr>])] initial_world) ! 0) =
     [\<lparr>description = ''A St'', place_id = ''a''\<rparr>, \<lparr>description = ''B Ave'', place_id = ''b''\<rparr>] \<and>
   \<not> loading
     (insts (run [Create ''key'' default_options, GoogleDefined, Mounted 0,
                  Search 0 ''Main'', Elapse 300, TimerFires 1,
                  PredictionsReply 0
                    (Some [\<lparr>description = ''A St'', place_id = ''a''\<rparr>,
                           \<lparr>description = ''B Ave'', place_id = ''b''\<rparr>])] initial_world) ! 0)"
  by (simp add: world_simps)

text \<open>
  A lookup the service answers with a status other than \<open>OK\<close> is rejected, and the
  predictions and the loading flag are as before.
\<close>

lemma scenario_details_not_found:
  "details
     (insts (run [Create ''key'' default_options, GoogleDefined, Mounted 0,
                  Details 0 ''xyz'', DetailsReply 0 0 None NOT_FOUND] initial_world) ! 0) =
     [Rejected (Error ''Place details not found'')] \<and>
   predictions
     (insts (run [Create ''key'' default_options, GoogleDefined, Mounted 0,
                  Details 0 ''xyz'', DetailsReply 0 0 None NOT_FOUND] initial_world) ! 0) = [] \<and>
   \<not> loading
     (insts (run [Create ''key'' default_options, GoogleDefined, Mounted 0,
                  Details 0 ''xyz'', DetailsReply 0 0 None NOT_FOUND] initial_world) ! 0)"
  by (simp add: world_simps)

text \<open>
  When the API is present at mount time, no script is inserted and the API flag of the
  instance is set at once.
\<close>

lemma scenario_api_already_present:
  "document_head (run [Create ''key'' default_options, GoogleDefined, Mounted 0] initial_world) = [] \<and>
   isGoogleMapsApiLoaded
     (insts (run [Create ''key'' default_options, GoogleDefined, Mounted 0] initial_world) ! 0)"
  by (simp add: world_simps)

text \<open>
  Two instances mounted before any script has loaded insert a script each; the load
  of the first sets the process-wide flag and the API flag of the first instance only.
\<close>

lemma scenario_overlapping_loads:
  "map script_src
     (document_head
        (run [Create ''k1'' default_options,
              Create ''k2'' (default_options\<lparr>opt_language := Some ''pt-BR''\<rparr>),
              Mounted 0, Mounted 1, ScriptLoad 0] initial_world)) =
     [''https://maps.googleapis.com/maps/api/js?key=k1&libraries=places&language=en'',
      ''https://maps.googleapis.com/maps/api/js?key=k2&libraries=places&language=pt-BR''] \<and>
   map isGoogleMapsApiLoaded
     (insts
        (run [Create ''k1'' default_options,
              Create ''k2'' (default_options\<lparr>opt_language := Some ''pt-BR''\<rparr>),
              Mounted 0, Mounted 1, ScriptLoad 0] initial_world)) = [True, False] \<and>
   googleMapsApiLoaded
     (run [Create ''k1'' default_options,
           Create ''k2'' (default_options\<lparr>opt_language := Some ''pt-BR''\<rparr>),
           Mounted 0, Mounted 1, ScriptLoad 0] initial_world)"
  by (simp add: world_simps)

end
